theory Spec2Isabelle
  imports Complex_Main "HOL-Library.Char_ord" "HOL-Library.List_Lexorder" "HOL-Library.Sublist"
begin

section \<open>Values held by a data frame cell\<close>

text \<open>
  The dashboard reads its numbers out of pandas data frames. A cell holds a number, a
  missing marker (\<open>NaN\<close> or \<open>None\<close>), a time of day, or a string. Finite numbers are
  modelled by the exact rational they stand for; the two infinities and \<open>NaN\<close> of the
  float type are separate values, since \<open>get_zone_status\<close> uses \<open>float('inf')\<close> and
  \<open>float('-inf')\<close> as defaults. Rounding of binary floats, integer versus float and numpy
  versus builtin number types are not modelled. A time of day is hour, minute, second and
  microsecond, as \<open>datetime.time\<close> has them.
\<close>

datatype pyval =
    Num rat
  | PosInf
  | NegInf
  | NaN
  | PNone
  | Time nat nat nat nat
  | Str string

datatype exn =
    TypeError string
  | KeyError string
  | ValueError string
  | AttributeError string
  | ZeroDivisionError string

text \<open>The single quote character, as a string.\<close>

abbreviation sq :: string where
  "sq \<equiv> [CHR 0x27]"

text \<open>\<open>str(e)\<close>: a \<open>KeyError\<close> prints the repr of its key, the others their message.\<close>

fun str_exn :: "exn \<Rightarrow> string" where
  "str_exn (TypeError m) = m"
| "str_exn (KeyError k) = sq @ k @ sq"
| "str_exn (ValueError m) = m"
| "str_exn (AttributeError m) = m"
| "str_exn (ZeroDivisionError m) = m"

text \<open>Sequencing of computations that may raise: the first exception wins.\<close>

definition bind :: "exn + 'a \<Rightarrow> ('a \<Rightarrow> exn + 'b) \<Rightarrow> exn + 'b" where
  "bind m f = (case m of Inl e \<Rightarrow> Inl e | Inr x \<Rightarrow> f x)"

fun is_float :: "pyval \<Rightarrow> bool" where
  "is_float (Num _) = True"
| "is_float PosInf = True"
| "is_float NegInf = True"
| "is_float NaN = True"
| "is_float _ = False"

text \<open>\<open>pd.isna\<close> on a scalar: true for \<open>None\<close> and \<open>NaN\<close> only.\<close>

fun isna :: "pyval \<Rightarrow> bool" where
  "isna NaN = True"
| "isna PNone = True"
| "isna _ = False"

fun type_name :: "pyval \<Rightarrow> string" where
  "type_name (Num _) = ''float''"
| "type_name PosInf = ''float''"
| "type_name NegInf = ''float''"
| "type_name NaN = ''float''"
| "type_name PNone = ''NoneType''"
| "type_name (Time _ _ _ _) = ''datetime.time''"
| "type_name (Str _) = ''str''"

subsection \<open>Comparison\<close>

text \<open>Float comparison: anything compared with \<open>NaN\<close> is false.\<close>

fun float_le :: "pyval \<Rightarrow> pyval \<Rightarrow> bool" where
  "float_le NaN _ = False"
| "float_le _ NaN = False"
| "float_le NegInf _ = True"
| "float_le _ PosInf = True"
| "float_le (Num a) (Num b) = (a \<le> b)"
| "float_le _ _ = False"

fun float_lt :: "pyval \<Rightarrow> pyval \<Rightarrow> bool" where
  "float_lt NaN _ = False"
| "float_lt _ NaN = False"
| "float_lt (Num a) (Num b) = (a < b)"
| "float_lt NegInf NegInf = False"
| "float_lt PosInf _ = False"
| "float_lt NegInf _ = True"
| "float_lt _ PosInf = True"
| "float_lt _ _ = False"

datatype cmpop = Lt | Le | Gt | Ge

fun cmp_sym :: "cmpop \<Rightarrow> string" where
  "cmp_sym Lt = ''<''"
| "cmp_sym Le = ''<=''"
| "cmp_sym Gt = ''>''"
| "cmp_sym Ge = ''>=''"

definition cmp_error :: "cmpop \<Rightarrow> pyval \<Rightarrow> pyval \<Rightarrow> exn" where
  "cmp_error opr a b =
     TypeError (sq @ cmp_sym opr @ sq @ '' not supported between instances of '' @ sq
                @ type_name a @ sq @ '' and '' @ sq @ type_name b @ sq)"

text \<open>
  \<open>a < b\<close> and \<open>a <= b\<close> between two cell values. Numbers compare as floats, times of
  day field by field, strings lexicographically; every other pairing raises \<open>TypeError\<close>.
\<close>

fun py_less :: "bool \<Rightarrow> pyval \<Rightarrow> pyval \<Rightarrow> bool option" where
  "py_less eq (Time h m s u) (Time h' m' s' u') =
     Some (if eq then [h, m, s, u] \<le> [h', m', s', u'] else [h, m, s, u] < [h', m', s', u'])"
| "py_less eq (Str x) (Str y) = Some (if eq then x \<le> y else x < y)"
| "py_less eq a b =
     (if is_float a \<and> is_float b then Some (if eq then float_le a b else float_lt a b)
      else None)"

definition py_compare :: "cmpop \<Rightarrow> pyval \<Rightarrow> pyval \<Rightarrow> exn + bool" where
  "py_compare opr a b =
     (case (case opr of Lt \<Rightarrow> py_less False a b | Le \<Rightarrow> py_less True a b
                      | Gt \<Rightarrow> py_less False b a | Ge \<Rightarrow> py_less True b a) of
        None \<Rightarrow> Inl (cmp_error opr a b)
      | Some r \<Rightarrow> Inr r)"

subsection \<open>Arithmetic\<close>

definition arith_error :: "string \<Rightarrow> pyval \<Rightarrow> pyval \<Rightarrow> exn" where
  "arith_error opsym a b =
     TypeError (''unsupported operand type(s) for '' @ opsym @ '': '' @ sq @ type_name a
                @ sq @ '' and '' @ sq @ type_name b @ sq)"

fun float_sub :: "pyval \<Rightarrow> pyval \<Rightarrow> pyval" where
  "float_sub NaN _ = NaN"
| "float_sub _ NaN = NaN"
| "float_sub (Num a) (Num b) = Num (a - b)"
| "float_sub PosInf PosInf = NaN"
| "float_sub NegInf NegInf = NaN"
| "float_sub PosInf _ = PosInf"
| "float_sub NegInf _ = NegInf"
| "float_sub _ PosInf = NegInf"
| "float_sub _ NegInf = PosInf"
| "float_sub _ _ = NaN"

definition py_sub :: "pyval \<Rightarrow> pyval \<Rightarrow> exn + pyval" where
  "py_sub a b =
     (if is_float a \<and> is_float b then Inr (float_sub a b) else Inl (arith_error ''-'' a b))"

text \<open>
  True division. A zero divisor raises, as for Python floats; the only division of the
  program is guarded by a test that the divisor is positive.
\<close>

fun float_div :: "pyval \<Rightarrow> pyval \<Rightarrow> pyval" where
  "float_div NaN _ = NaN"
| "float_div _ NaN = NaN"
| "float_div (Num a) (Num b) = Num (a / b)"
| "float_div (Num a) _ = Num 0"
| "float_div PosInf (Num b) = (if 0 < b then PosInf else NegInf)"
| "float_div NegInf (Num b) = (if 0 < b then NegInf else PosInf)"
| "float_div _ _ = NaN"

definition py_div :: "pyval \<Rightarrow> pyval \<Rightarrow> exn + pyval" where
  "py_div a b =
     (if is_float a \<and> is_float b then
        (if b = Num 0 then Inl (ZeroDivisionError ''float division by zero'')
         else Inr (float_div a b))
      else Inl (arith_error ''/'' a b))"

section \<open>Data frames\<close>

text \<open>
  A data frame is its list of column names and its rows in index order. A row stores the
  cells it has; a cell of a known column that a row does not store reads as \<open>NaN\<close>, as in
  a frame built from records with different keys.
\<close>

type_synonym row = "string \<rightharpoonup> pyval"

record dataframe =
  columns :: "string list"
  rows :: "row list"

definition cell :: "row \<Rightarrow> string \<Rightarrow> pyval" where
  "cell r c = (case r c of None \<Rightarrow> NaN | Some v \<Rightarrow> v)"

text \<open>\<open>pd.DataFrame([r])\<close> for a row \<open>r\<close> of \<open>df\<close>: one row, the same columns.\<close>

definition single_row :: "dataframe \<Rightarrow> row \<Rightarrow> dataframe" where
  "single_row df r = \<lparr>columns = columns df, rows = [r]\<rparr>"

text \<open>
  \<open>pd.DataFrame([df.iloc[-2]])\<close>, the frame of the observation before the latest one. It
  is only built when the history has two rows or more.
\<close>

definition previous :: "dataframe \<Rightarrow> dataframe" where
  "previous df = single_row df (rows df ! (length (rows df) - 2))"

text \<open>
  \<open>safe_get_value(df, column, default)\<close>: the cell of the last row, or the default when
  the column is missing, the frame is empty or the cell is \<open>NaN\<close>/\<open>None\<close>.
\<close>

definition safe_get_value :: "dataframe \<Rightarrow> string \<Rightarrow> pyval \<Rightarrow> pyval" where
  "safe_get_value df column dflt =
     (if column \<in> set (columns df) then
        (let v = (if length (rows df) > 0 then cell (last (rows df)) column else dflt)
         in if \<not> isna v then v else dflt)
      else dflt)"


text \<open>\<open>row.get(key, default)\<close> and \<open>row[key]\<close> on a row of \<open>df\<close>, and \<open>key in row\<close>.\<close>

definition series_get :: "dataframe \<Rightarrow> row \<Rightarrow> string \<Rightarrow> pyval \<Rightarrow> pyval" where
  "series_get df r key dflt = (if key \<in> set (columns df) then cell r key else dflt)"

definition series_item :: "dataframe \<Rightarrow> row \<Rightarrow> string \<Rightarrow> exn + pyval" where
  "series_item df r key =
     (if key \<in> set (columns df) then Inr (cell r key) else Inl (KeyError key))"

section \<open>Zone classifier\<close>

text \<open>
  The seven labels \<open>get_zone_status\<close> returns: a white circle with \<open>No Data\<close>,
  \<open>No Config\<close>, \<open>Unknown\<close> or \<open>Error\<close>, and a red, yellow or green circle with
  \<open>Red\<close>, \<open>Yellow\<close> or \<open>Green\<close>.
\<close>

datatype zone = NoData | NoConfig | Red | Yellow | Green | Unknown | Error

text \<open>
  The test of one range, \<open>not (isna(low) or isna(high)) and low <= value <= high\<close>.
  The chained comparison stops at the first false link.
\<close>

fun in_range :: "pyval \<times> pyval \<Rightarrow> pyval \<Rightarrow> exn + bool" where
  "in_range (low, high) v =
     (if \<not> (isna low \<or> isna high) then
        bind (py_compare Le low v) (\<lambda>a. if a then py_compare Le v high else Inr False)
      else Inr False)"

text \<open>The loop over the ranges of one colour: true at the first range that holds the value.\<close>

fun any_in_range :: "(pyval \<times> pyval) list \<Rightarrow> pyval \<Rightarrow> exn + bool" where
  "any_in_range [] v = Inr False"
| "any_in_range (r # rs) v = bind (in_range r v) (\<lambda>hit. if hit then Inr True else any_in_range rs v)"

text \<open>
  The list of ranges of one colour: the primary pair, read with \<open>get\<close> and the defaults
  \<open>inf\<close> and \<open>-inf\<close>, and the secondary pair when its low column is in the row and
  not missing. The secondary high bound is read with \<open>row[...]\<close>, which raises
  \<open>KeyError\<close> when the column is not there.
\<close>

definition band_ranges ::
  "dataframe \<Rightarrow> row \<Rightarrow> string \<Rightarrow> string \<Rightarrow> string \<Rightarrow> string \<Rightarrow> exn + (pyval \<times> pyval) list" where
  "band_ranges df r low high low2 high2 =
     (let ranges = [(series_get df r low PosInf, series_get df r high NegInf)]
      in if low2 \<in> set (columns df) \<and> \<not> isna (cell r low2) then
           bind (series_item df r low2) (\<lambda>l2.
           bind (series_item df r high2) (\<lambda>h2.
           Inr (ranges @ [(l2, h2)])))
         else Inr ranges)"

text \<open>\<open>thresholds[thresholds['metric_name'] == metric_name]\<close>: the rows of the metric.\<close>

definition matching_rows :: "dataframe \<Rightarrow> string \<Rightarrow> row list" where
  "matching_rows t metric_name =
     filter (\<lambda>r. cell r ''metric_name'' = Str metric_name) (rows t)"

definition get_zone_status_body :: "pyval \<Rightarrow> string \<Rightarrow> dataframe \<Rightarrow> exn + zone" where
  "get_zone_status_body v metric_name thresholds =
     (if isna v then Inr NoData
      else if ''metric_name'' \<notin> set (columns thresholds) then Inl (KeyError ''metric_name'')
      else
        (let matching = matching_rows thresholds metric_name
         in if matching = [] then Inr NoConfig
            else
              (let r = hd matching
               in bind (band_ranges thresholds r ''red_low'' ''red_high'' ''red_low2'' ''red_high2'')
                    (\<lambda>red_ranges.
                  bind (any_in_range red_ranges v) (\<lambda>red_hit.
                  if red_hit then Inr Red
                  else
                    bind (band_ranges thresholds r
                            ''yellow_low'' ''yellow_high'' ''yellow_low2'' ''yellow_high2'')
                      (\<lambda>yellow_ranges.
                    bind (any_in_range yellow_ranges v) (\<lambda>yellow_hit.
                    if yellow_hit then Inr Yellow
                    else
                      (let green_low = series_get thresholds r ''green_low'' PosInf;
                           green_high = series_get thresholds r ''green_high'' NegInf
                       in bind (in_range (green_low, green_high) v) (\<lambda>green_hit.
                          if green_hit then Inr Green else Inr Unknown)))))))))"

text \<open>The \<open>try\<close>/\<open>except Exception\<close> around the whole body.\<close>

definition get_zone_status :: "pyval \<Rightarrow> string \<Rightarrow> dataframe \<Rightarrow> zone" where
  "get_zone_status v metric_name thresholds =
     (case get_zone_status_body v metric_name thresholds of
        Inl e \<Rightarrow> Error
      | Inr z \<Rightarrow> z)"


section \<open>Formatting\<close>

text \<open>
  Strings are byte strings; a character outside ASCII is written as its UTF-8 bytes.
\<close>

abbreviation down_arrow :: string where
  "down_arrow \<equiv> [CHR 0xE2, CHR 0x86, CHR 0x93]"

abbreviation up_arrow :: string where
  "up_arrow \<equiv> [CHR 0xE2, CHR 0x86, CHR 0x91]"

abbreviation subscript_two :: string where
  "subscript_two \<equiv> [CHR 0xE2, CHR 0x82, CHR 0x82]"

fun str_nat :: "nat \<Rightarrow> string" where
  "str_nat n =
     (if n < 10 then [''0123456789'' ! n]
      else str_nat (n div 10) @ [''0123456789'' ! (n mod 10)])"

declare str_nat.simps [simp del]

definition zero_pad :: "nat \<Rightarrow> string \<Rightarrow> string" where
  "zero_pad w s = replicate (w - length s) (CHR ''0'') @ s"

text \<open>Rounding of a non-negative rational to the nearest integer, ties to the even one.\<close>

definition round_half_even :: "rat \<Rightarrow> nat" where
  "round_half_even q =
     (let f = \<lfloor>q\<rfloor>; r = q - of_int f
      in nat (if r < 1 / 2 then f else if 1 / 2 < r then f + 1
              else if even f then f else f + 1))"

text \<open>
  \<open>format(x, '.df')\<close> for a finite number: sign, integer digits, and \<open>d\<close> decimals when
  \<open>d > 0\<close>. The exact value is rounded; Python rounds the binary float, which can give a
  different last digit when the decimal the float stands for is a tie.
\<close>

definition fixed :: "nat \<Rightarrow> rat \<Rightarrow> string" where
  "fixed d x =
     (let n = round_half_even (\<bar>x\<bar> * 10 ^ d)
      in (if x < 0 then ''-'' else []) @ str_nat (n div 10 ^ d)
         @ (if d = 0 then [] else ''.'' @ zero_pad d (str_nat (n mod 10 ^ d))))"

text \<open>
  The format specification \<open>.df\<close> applied to a cell value. A time of day hands the
  specification to \<open>strftime\<close>, which copies it; a string and \<open>None\<close> raise.
\<close>

fun format_f :: "nat \<Rightarrow> pyval \<Rightarrow> exn + string" where
  "format_f d (Num x) = Inr (fixed d x)"
| "format_f d PosInf = Inr ''inf''"
| "format_f d NegInf = Inr ''-inf''"
| "format_f d NaN = Inr ''nan''"
| "format_f d PNone = Inl (TypeError ''unsupported format string passed to NoneType.__format__'')"
| "format_f d (Time _ _ _ _) = Inr (''.'' @ str_nat d @ ''f'')"
| "format_f d (Str _) =
     Inl (ValueError (''Unknown format code '' @ sq @ ''f'' @ sq @ '' for object of type ''
                      @ sq @ ''str'' @ sq))"

text \<open>Truth value of a cell value, and \<open>strftime('%H:%M')\<close>.\<close>

fun truthy :: "pyval \<Rightarrow> bool" where
  "truthy PNone = False"
| "truthy (Num x) = (x \<noteq> 0)"
| "truthy (Str s) = (s \<noteq> [])"
| "truthy _ = True"

fun strftime_HM :: "pyval \<Rightarrow> exn + string" where
  "strftime_HM (Time h m _ _) = Inr (zero_pad 2 (str_nat h) @ '':'' @ zero_pad 2 (str_nat m))"
| "strftime_HM v =
     Inl (AttributeError (sq @ type_name v @ sq @ '' object has no attribute '' @ sq
                          @ ''strftime'' @ sq))"

section \<open>Alert classifier\<close>

record alert =
  type :: string
  title :: string
  cause :: string
  rec :: string

text \<open>The values of the latest observation, with the defaults for missing ones.\<close>

record metrics =
  hrv_night :: pyval
  resting_hr :: pyval
  temp_trend_c :: pyval
  spo2_night :: pyval
  deep_sleep_pct :: pyval
  rem_sleep_pct :: pyval
  sleep_duration_h :: pyval
  resp_rate_night :: pyval
  sleep_onset_time :: pyval

definition latest_metrics :: "dataframe \<Rightarrow> metrics" where
  "latest_metrics df =
     \<lparr>hrv_night = safe_get_value df ''hrv_night'' (Num 50),
      resting_hr = safe_get_value df ''resting_hr'' (Num 60),
      temp_trend_c = safe_get_value df ''temp_trend_c'' (Num 36.5),
      spo2_night = safe_get_value df ''spo2_night'' (Num 97),
      deep_sleep_pct = safe_get_value df ''deep_sleep_pct'' (Num 20),
      rem_sleep_pct = safe_get_value df ''rem_sleep_pct'' (Num 20),
      sleep_duration_h = safe_get_value df ''sleep_duration_h'' (Num 8),
      resp_rate_night = safe_get_value df ''resp_rate_night'' (Num 15),
      sleep_onset_time = safe_get_value df ''sleep_onset_time'' PNone\<rparr>"

text \<open>
  The deviation logic. With two or more observations the flags compare the latest value
  with the previous one, and are false when the previous value is not positive; with one
  observation they use the absolute thresholds.
\<close>

definition hrv_drop_of :: "dataframe \<Rightarrow> metrics \<Rightarrow> exn + bool" where
  "hrv_drop_of df m =
     (if length (rows df) \<ge> 2 then
        (let prev_hrv = safe_get_value (previous df) ''hrv_night'' (Num 50)
         in bind (py_compare Gt prev_hrv (Num 0)) (\<lambda>positive.
            if positive then
              bind (py_sub prev_hrv (hrv_night m)) (\<lambda>diff.
              bind (py_div diff prev_hrv) (\<lambda>ratio.
              py_compare Gt ratio (Num 0.15)))
            else Inr False))
      else py_compare Lt (hrv_night m) (Num 40))"

definition rhr_rise_of :: "dataframe \<Rightarrow> metrics \<Rightarrow> exn + bool" where
  "rhr_rise_of df m =
     (if length (rows df) \<ge> 2 then
        (let prev_rhr = safe_get_value (previous df) ''resting_hr'' (Num 60)
         in bind (py_compare Gt prev_rhr (Num 0)) (\<lambda>positive.
            if positive then
              bind (py_sub (resting_hr m) prev_rhr) (\<lambda>diff.
              bind (py_div diff prev_rhr) (\<lambda>ratio.
              py_compare Gt ratio (Num 0.05)))
            else Inr False))
      else py_compare Gt (resting_hr m) (Num 70))"

text \<open>\<open>sleep_onset_time is not None and sleep_onset_time > ref_time\<close>, with 23:30 as \<open>ref_time\<close>.\<close>

definition sleep_late_of :: "metrics \<Rightarrow> exn + bool" where
  "sleep_late_of m =
     (if sleep_onset_time m \<noteq> PNone then py_compare Gt (sleep_onset_time m) (Time 23 30 0 0)
      else Inr False)"

record flags =
  hrv_drop :: bool
  rhr_rise :: bool
  temp_high :: bool
  spo2_low :: bool
  deep_low :: bool
  rem_low :: bool
  sleep_short :: bool
  resp_high :: bool
  sleep_late :: bool

text \<open>All flags, computed in the order of the source; the first fault ends the computation.\<close>

definition alert_flags :: "dataframe \<Rightarrow> metrics \<Rightarrow> exn + flags" where
  "alert_flags df m =
     bind (hrv_drop_of df m) (\<lambda>dr.
     bind (rhr_rise_of df m) (\<lambda>rr.
     bind (py_compare Ge (temp_trend_c m) (Num 37.0)) (\<lambda>th.
     bind (py_compare Le (spo2_night m) (Num 94)) (\<lambda>sl.
     bind (py_compare Lt (deep_sleep_pct m) (Num 17)) (\<lambda>dl.
     bind (py_compare Lt (rem_sleep_pct m) (Num 16)) (\<lambda>rl.
     bind (py_compare Lt (sleep_duration_h m) (Num 7.0)) (\<lambda>ss.
     bind (py_compare Ge (resp_rate_night m) (Num 17)) (\<lambda>rh.
     bind (sleep_late_of m) (\<lambda>late.
     Inr \<lparr>hrv_drop = dr, rhr_rise = rr, temp_high = th, spo2_low = sl, deep_low = dl,
          rem_low = rl, sleep_short = ss, resp_high = rh, sleep_late = late\<rparr>)))))))))"

text \<open>The chain of alert rules; the first rule whose condition holds gives the alert.\<close>

definition apply_rules :: "metrics \<Rightarrow> flags \<Rightarrow> exn + alert" where
  "apply_rules m f =
     (if hrv_drop f \<and> rhr_rise f \<and> temp_high f \<and> spo2_low f then
        bind (format_f 0 (hrv_night m)) (\<lambda>s1.
        bind (format_f 0 (resting_hr m)) (\<lambda>s2.
        bind (format_f 1 (temp_trend_c m)) (\<lambda>s3.
        bind (format_f 1 (spo2_night m)) (\<lambda>s4.
        Inr \<lparr>type = ''inflammation'',
             title = [CHR 0xE2, CHR 0x9A, CHR 0xA0, CHR 0xEF, CHR 0xB8, CHR 0x8F]
                     @ '' Inflammation/Illness Risk'',
             cause = ''HRV'' @ down_arrow @ ''('' @ s1 @ '') + RHR'' @ up_arrow @ ''('' @ s2
                     @ '') + Temp'' @ up_arrow @ ''('' @ s3 @ '') + SpO'' @ subscript_two
                     @ down_arrow @ ''('' @ s4 @ '')'',
             rec = ''Prioritize rest, hydration, anti-inflammatory nutrition. Monitor temperature closely.''\<rparr>))))
      else if hrv_drop f \<and> deep_low f \<and> sleep_late f then
        bind (if truthy (sleep_onset_time m) then strftime_HM (sleep_onset_time m)
              else Inr ''Late'') (\<lambda>onset_str.
        bind (format_f 1 (deep_sleep_pct m)) (\<lambda>s1.
        Inr \<lparr>type = ''circadian'',
             title = [CHR 0xF0, CHR 0x9F, CHR 0x8C, CHR 0x99] @ '' Circadian Misalignment'',
             cause = ''HRV'' @ down_arrow @ '' + Deep Sleep'' @ down_arrow @ ''('' @ s1
                     @ ''%) + Late Sleep('' @ onset_str @ '')'',
             rec = ''Advance bedtime by 45min, increase morning light exposure, avoid screens after 9PM.''\<rparr>))
      else if hrv_drop f \<and> rem_low f \<and> \<not> temp_high f then
        bind (format_f 1 (rem_sleep_pct m)) (\<lambda>s1.
        Inr \<lparr>type = ''nutrition'',
             title = [CHR 0xF0, CHR 0x9F, CHR 0xA5, CHR 0x97] @ '' Possible Nutrient Gap'',
             cause = ''HRV'' @ down_arrow @ '' + REM'' @ down_arrow @ ''('' @ s1
                     @ ''%) with stable temperature'',
             rec = ''Check iron, magnesium, omega-3, B12 status. Increase nutrient-dense foods.''\<rparr>)
      else if spo2_low f \<and> resp_high f then
        bind (format_f 1 (spo2_night m)) (\<lambda>s1.
        bind (format_f 1 (resp_rate_night m)) (\<lambda>s2.
        Inr \<lparr>type = ''airway'',
             title = [CHR 0xF0, CHR 0x9F, CHR 0x8C, CHR 0xAC, CHR 0xEF, CHR 0xB8, CHR 0x8F]
                     @ '' Airway/Respiratory Stress'',
             cause = ''SpO'' @ subscript_two @ ''='' @ s1 @ ''% + Resp Rate='' @ s2 @ ''/min'',
             rec = ''Evaluate sleep environment, nasal breathing. Consider air quality assessment.''\<rparr>))
      else
        Inr \<lparr>type = ''green'',
             title = [CHR 0xF0, CHR 0x9F, CHR 0x9F, CHR 0xA2] @ '' Optimal Recovery State'',
             cause = ''All metrics within target ranges'',
             rec = ''Maintain current training and recovery protocols.''\<rparr>)"

text \<open>A genotype dictionary: its items in insertion order.\<close>

type_synonym pydict = "(string \<times> pyval) list"

definition generate_alert_body :: "string \<Rightarrow> dataframe \<Rightarrow> pydict \<Rightarrow> exn + alert" where
  "generate_alert_body athlete_id df genetic_dict =
     (if length (rows df) = 0 then
        Inr \<lparr>type = ''no_data'',
             title = [CHR 0xF0, CHR 0x9F, CHR 0x93, CHR 0x8A] @ '' No Data'',
             cause = ''No recent biometric data available'',
             rec = ''Please ensure data collection is active.''\<rparr>
      else
        (let m = latest_metrics df
         in bind (alert_flags df m) (\<lambda>f. apply_rules m f)))"

text \<open>The \<open>except Exception as e\<close> handler: the first 50 characters of \<open>str(e)\<close> go into the cause.\<close>

definition generate_alert :: "string \<Rightarrow> dataframe \<Rightarrow> pydict \<Rightarrow> alert" where
  "generate_alert athlete_id df genetic_dict =
     (case generate_alert_body athlete_id df genetic_dict of
        Inr a \<Rightarrow> a
      | Inl e \<Rightarrow>
          \<lparr>type = ''error'',
           title = [CHR 0xE2, CHR 0x9D, CHR 0x8C] @ '' Analysis Error'',
           cause = ''Error processing data: '' @ take 50 (str_exn e) @ ''...'',
           rec = ''Check data quality and try refreshing the dashboard.''\<rparr>)"


section \<open>Genetic annotator\<close>

record insight =
  gene :: string
  trait :: string
  recommendation :: string

text \<open>\<open>d.get(key)\<close>: the value stored under the key, or \<open>None\<close>.\<close>

definition dict_get :: "pydict \<Rightarrow> string \<Rightarrow> pyval" where
  "dict_get d k = (case map_of d k of None \<Rightarrow> PNone | Some v \<Rightarrow> v)"

definition per3_long :: insight where
  "per3_long =
     \<lparr>gene = ''PER3 (Long variant)'',
      trait = ''Natural night owl tendency'',
      recommendation = ''Allow later bedtimes when possible, prioritize consistent wake times, use bright light therapy in morning''\<rparr>"

definition per3_short :: insight where
  "per3_short =
     \<lparr>gene = ''PER3 (Short variant)'',
      trait = ''Natural early bird tendency'',
      recommendation = ''Optimize early morning training, avoid late evening intense exercise, maintain regular early bedtime''\<rparr>"

definition clock_aa :: insight where
  "clock_aa =
     \<lparr>gene = ''CLOCK (AA genotype)'',
      trait = ''Enhanced circadian sensitivity'',
      recommendation = ''Maintain strict sleep schedule, minimize blue light exposure 2h before bed, prioritize sleep environment optimization''\<rparr>"

definition actn3_xx :: insight where
  "actn3_xx =
     \<lparr>gene = ''ACTN3 (XX genotype)'',
      trait = ''Enhanced endurance capacity'',
      recommendation = ''Focus on aerobic base building, longer recovery periods between high-intensity sessions, emphasize mitochondrial health''\<rparr>"

definition actn3_rr :: insight where
  "actn3_rr =
     \<lparr>gene = ''ACTN3 (RR genotype)'',
      trait = ''Enhanced power/sprint capacity'',
      recommendation = ''Optimize explosive training, shorter but more intense sessions, focus on neuromuscular recovery''\<rparr>"

text \<open>
  The genotype section of the athlete page: the list \<open>genetic_insights\<close> after the three
  gene checks. For an empty dictionary the page shows a notice and builds no list.
\<close>

definition genetic_insights :: "pydict \<Rightarrow> insight list" where
  "genetic_insights genetic_dict =
     (if genetic_dict \<noteq> [] then
        (let l1 = (if dict_get genetic_dict ''PER3'' = Str ''long'' then [per3_long]
                   else if dict_get genetic_dict ''PER3'' = Str ''short'' then [per3_short]
                   else []);
             l2 = l1 @ (if dict_get genetic_dict ''CLOCK'' = Str ''AA'' then [clock_aa] else []);
             l3 = l2 @ (if dict_get genetic_dict ''ACTN3'' = Str ''XX'' then [actn3_xx]
                        else if dict_get genetic_dict ''ACTN3'' = Str ''RR'' then [actn3_rr]
                        else [])
         in l3)
      else [])"

section \<open>The threshold table of the template generator\<close>

definition metrics_config_columns :: "string list" where
  "metrics_config_columns =
     [''metric_name'', ''green_low'', ''green_high'', ''yellow_low'', ''yellow_high'',
      ''red_low'', ''red_high'', ''unit'', ''yellow_low2'', ''yellow_high2'',
      ''red_low2'', ''red_high2'']"

definition config_row ::
  "string \<Rightarrow> rat \<Rightarrow> rat \<Rightarrow> rat \<Rightarrow> rat \<Rightarrow> rat \<Rightarrow> rat \<Rightarrow> string \<Rightarrow> (string \<times> pyval) list" where
  "config_row name gl gh yl yh rl rh u =
     [(''metric_name'', Str name), (''green_low'', Num gl), (''green_high'', Num gh),
      (''yellow_low'', Num yl), (''yellow_high'', Num yh), (''red_low'', Num rl),
      (''red_high'', Num rh), (''unit'', Str u)]"

definition metrics_config :: dataframe where
  "metrics_config =
     \<lparr>columns = metrics_config_columns,
      rows =
        [map_of (config_row ''resting_hr'' 42 54 55 59 60 100 ''bpm''),
         map_of (config_row ''avg_hr_day'' 50 68 69 74 75 120 ''bpm''),
         map_of (config_row ''spo2_night'' 97 100 95 96 0 94 ''%''),
         map_of (config_row ''hrv_night'' 90 200 70 89 0 69 ''ms''),
         map_of (config_row ''deep_sleep_pct'' 22 100 17 21 0 16 ''%''),
         map_of (config_row ''rem_sleep_pct'' 20 25 16 19 0 15 ''%''
                 @ [(''yellow_low2'', Num 26), (''yellow_high2'', Num 30),
                    (''red_low2'', Num 31), (''red_high2'', Num 100)]),
         map_of (config_row ''light_sleep_pct'' 35 45 46 50 51 100 ''%''),
         map_of (config_row ''sleep_duration_h'' 8.0 9.2 7.0 7.9 0 6.9 ''h''),
         map_of (config_row ''resp_rate_night'' 10 14 15 16 17 100 ''/min''),
         map_of (config_row ''temp_trend_c'' 36.4 36.9 37.0 37.3 37.4 42.0
                   ([CHR 0xC2, CHR 0xB0] @ ''C'')
                 @ [(''yellow_low2'', Num 36.3), (''yellow_high2'', Num 36.3),
                    (''red_low2'', Num 0), (''red_high2'', Num 36.2)]),
         map_of (config_row ''training_load_pct'' 100 100 85 99 0 70 ''%'')]\<rparr>"


section \<open>Well-formed inputs and the specification's wording\<close>


fun num_or_missing :: "pyval \<Rightarrow> bool" where
  "num_or_missing (Num _) = True"
| "num_or_missing NaN = True"
| "num_or_missing PNone = True"
| "num_or_missing _ = False"









text \<open>A metric is absent from the latest observation: no such column, or a missing cell.\<close>

definition absent :: "dataframe \<Rightarrow> string \<Rightarrow> bool" where
  "absent df c \<longleftrightarrow> c \<notin> set (columns df) \<or> isna (cell (last (rows df)) c)"

text \<open>Removing one field from the observation at position \<open>i\<close>.\<close>

definition remove_field :: "nat \<Rightarrow> string \<Rightarrow> dataframe \<Rightarrow> dataframe" where
  "remove_field i c df = df\<lparr>rows := (rows df)[i := (rows df ! i)(c := None)]\<rparr>"

text \<open>Removing a column from the whole history.\<close>

definition remove_column :: "string \<Rightarrow> dataframe \<Rightarrow> dataframe" where
  "remove_column c df = df\<lparr>columns := removeAll c (columns df)\<rparr>"

subsection \<open>Threshold configuration\<close>

text \<open>
  The bands of one metric as the specification describes them: the critical and the
  caution ranges, up to two each, and the optimal range. A pair of bounds is a range
  only when both bounds are numbers.
\<close>

record band_config =
  critical :: "(rat \<times> rat) list"
  caution :: "(rat \<times> rat) list"
  optimal :: "(rat \<times> rat) list"

fun bound_pair :: "pyval \<Rightarrow> pyval \<Rightarrow> (rat \<times> rat) list" where
  "bound_pair (Num l) (Num h) = [(l, h)]"
| "bound_pair _ _ = []"

definition bound :: "dataframe \<Rightarrow> row \<Rightarrow> string \<Rightarrow> pyval" where
  "bound t r c = (if c \<in> set (columns t) then cell r c else NaN)"

definition config_of :: "dataframe \<Rightarrow> row \<Rightarrow> band_config" where
  "config_of t r =
     \<lparr>critical = bound_pair (bound t r ''red_low'') (bound t r ''red_high'')
                  @ bound_pair (bound t r ''red_low2'') (bound t r ''red_high2''),
      caution = bound_pair (bound t r ''yellow_low'') (bound t r ''yellow_high'')
                 @ bound_pair (bound t r ''yellow_low2'') (bound t r ''yellow_high2''),
      optimal = bound_pair (bound t r ''green_low'') (bound t r ''green_high'')\<rparr>"

definition contains :: "(rat \<times> rat) list \<Rightarrow> rat \<Rightarrow> bool" where
  "contains rs x \<longleftrightarrow> (\<exists>(l, h) \<in> set rs. l \<le> x \<and> x \<le> h)"

definition spec_zone :: "band_config \<Rightarrow> rat \<Rightarrow> zone" where
  "spec_zone cfg x =
     (if contains (critical cfg) x then Red
      else if contains (caution cfg) x then Yellow
      else if contains (optimal cfg) x then Green
      else Unknown)"

definition bound_columns :: "string list" where
  "bound_columns =
     [''red_low'', ''red_high'', ''red_low2'', ''red_high2'', ''yellow_low'', ''yellow_high'',
      ''yellow_low2'', ''yellow_high2'', ''green_low'', ''green_high'']"

text \<open>
  A well-formed configuration row: every bound is a finite number or missing, and a
  secondary low bound that is given has its high column in the table.
\<close>

definition wf_config :: "dataframe \<Rightarrow> row \<Rightarrow> bool" where
  "wf_config t r \<longleftrightarrow>
     (\<forall>c \<in> set bound_columns. num_or_missing (bound t r c))
     \<and> (\<not> isna (bound t r ''red_low2'') \<longrightarrow> ''red_high2'' \<in> set (columns t))
     \<and> (\<not> isna (bound t r ''yellow_low2'') \<longrightarrow> ''yellow_high2'' \<in> set (columns t))"

subsection \<open>Genetic annotations\<close>

text \<open>
  The recognised genes in their fixed order, each with its recognised genotype labels,
  and the annotator as the specification words it: for each gene in that order, the
  annotation of the label the map gives it, if that label is recognised.
\<close>

definition recognized :: "(string \<times> (string \<times> insight) list) list" where
  "recognized =
     [(''PER3'', [(''long'', per3_long), (''short'', per3_short)]),
      (''CLOCK'', [(''AA'', clock_aa)]),
      (''ACTN3'', [(''XX'', actn3_xx), (''RR'', actn3_rr)])]"

fun annotation :: "pydict \<Rightarrow> string \<times> (string \<times> insight) list \<Rightarrow> insight list" where
  "annotation g (gene_symbol, labels) =
     (case map_of g gene_symbol of
        Some (Str l) \<Rightarrow> (case map_of labels l of Some i \<Rightarrow> [i] | None \<Rightarrow> [])
      | _ \<Rightarrow> [])"

definition spec_annotate :: "pydict \<Rightarrow> insight list" where
  "spec_annotate g = concat (map (annotation g) recognized)"

text \<open>The gene symbol an annotation is about: its \<open>gene\<close> text up to the first space.\<close>

definition gene_symbol_of :: "insight \<Rightarrow> string" where
  "gene_symbol_of i = takeWhile (\<lambda>c. c \<noteq> CHR '' '') (gene i)"

section \<open>Example inputs\<close>

definition observation :: "(string \<times> pyval) list \<Rightarrow> row" where
  "observation kvs = map_of kvs"

definition inflammation_history :: dataframe where
  "inflammation_history =
     \<lparr>columns = [''hrv_night'', ''resting_hr'', ''temp_trend_c'', ''spo2_night''],
      rows =
        [observation [(''hrv_night'', Num 80), (''resting_hr'', Num 55),
                      (''temp_trend_c'', Num 36.6), (''spo2_night'', Num 98)],
         observation [(''hrv_night'', Num 55), (''resting_hr'', Num 60),
                      (''temp_trend_c'', Num 37.2), (''spo2_night'', Num 93)]]\<rparr>"


text \<open>One observation with a low HRV, a high resting heart rate, and nothing else.\<close>

definition single_history :: dataframe where
  "single_history =
     \<lparr>columns = [''hrv_night'', ''resting_hr''],
      rows = [observation [(''hrv_night'', Num 35), (''resting_hr'', Num 72)]]\<rparr>"


text \<open>A history whose latest temperature is text instead of a number.\<close>

definition malformed_history :: dataframe where
  "malformed_history =
     \<lparr>columns = [''hrv_night'', ''temp_trend_c''],
      rows = [observation [(''hrv_night'', Num 45), (''temp_trend_c'', Str ''warm'')]]\<rparr>"

text \<open>A threshold table with a secondary critical low bound and no column for its high bound.\<close>

definition broken_config :: dataframe where
  "broken_config =
     \<lparr>columns = [''metric_name'', ''red_low'', ''red_high'', ''red_low2''],
      rows = [observation [(''metric_name'', Str ''rem_sleep_pct''), (''red_low'', Num 0),
                           (''red_high'', Num 15), (''red_low2'', Num 31)]]\<rparr>"

text \<open>One observation that carries the athlete and the date and no metric at all.\<close>

definition bare_history :: dataframe where
  "bare_history =
     \<lparr>columns = [''athlete_id'', ''date''],
      rows = [observation [(''athlete_id'', Str ''A1''), (''date'', Str ''2024-01-01'')]]\<rparr>"

text \<open>A threshold table whose critical, caution and optimal ranges overlap.\<close>

definition overlapping_config :: dataframe where
  "overlapping_config =
     \<lparr>columns = [''metric_name'', ''green_low'', ''green_high'', ''yellow_low'', ''yellow_high'',
                 ''red_low'', ''red_high''],
      rows = [observation [(''metric_name'', Str ''load''), (''green_low'', Num 50),
                           (''green_high'', Num 80), (''yellow_low'', Num 40),
                           (''yellow_high'', Num 60), (''red_low'', Num 0),
                           (''red_high'', Num 45)]]\<rparr>"

text \<open>Two genotype dictionaries with the same entries, inserted in opposite orders.\<close>

definition genotype_a :: pydict where
  "genotype_a = [(''ACTN3'', Str ''RR''), (''CLOCK'', Str ''AA''), (''PER3'', Str ''long''),
                 (''MTHFR'', Str ''CT'')]"

definition genotype_b :: pydict where
  "genotype_b = rev genotype_a"

definition rem_row :: row where
  "rem_row = hd (matching_rows metrics_config ''rem_sleep_pct'')"


section \<open>Properties\<close>

lemmas cmp_defs = py_compare_def py_sub_def py_div_def bind_def
lemmas frame_defs = safe_get_value_def single_row_def previous_def cell_def observation_def

subsection \<open>The alert does not read the genotype\<close>

text \<open>
  Claim C10. The alert does not depend on the genotype dictionary: for every athlete
  identifier and history, any two dictionaries give the same alert record.
\<close>

theorem alert_ignores_genotype:
  "generate_alert athlete_id df g1 = generate_alert athlete_id df g2"
  by (simp add: generate_alert_def generate_alert_body_def)

subsection \<open>The inflammation example\<close>

lemma inflammation_metrics:
  "latest_metrics inflammation_history =
     \<lparr>hrv_night = Num 55, resting_hr = Num 60, temp_trend_c = Num 37.2, spo2_night = Num 93,
      deep_sleep_pct = Num 20, rem_sleep_pct = Num 20, sleep_duration_h = Num 8,
      resp_rate_night = Num 15, sleep_onset_time = PNone\<rparr>"
  by (simp add: latest_metrics_def inflammation_history_def frame_defs)

lemma inflammation_flags:
  "alert_flags inflammation_history (latest_metrics inflammation_history) =
     Inr \<lparr>hrv_drop = True, rhr_rise = True, temp_high = True, spo2_low = True,
          deep_low = False, rem_low = False, sleep_short = False, resp_high = False,
          sleep_late = False\<rparr>"
  unfolding inflammation_metrics
  by (simp add: alert_flags_def hrv_drop_of_def rhr_rise_of_def sleep_late_of_def
      inflammation_history_def frame_defs cmp_defs)

text \<open>
  Claim C7. For the history of two observations (HRV 80, RHR 55, temperature 36.6, SpO2 98)
  and then (HRV 55, RHR 60, temperature 37.2, SpO2 93), all other metrics absent, the four
  flags of the inflammation rule are set, the relative HRV drop being 25/80 = 0.3125, and
  the alert has the category inflammation; its cause shows the four latest values.
\<close>

theorem inflammation_example:
  "alert_flags inflammation_history (latest_metrics inflammation_history) =
     Inr \<lparr>hrv_drop = True, rhr_rise = True, temp_high = True, spo2_low = True,
          deep_low = False, rem_low = False, sleep_short = False, resp_high = False,
          sleep_late = False\<rparr>
   \<and> py_div (Num (80 - 55)) (Num 80) = Inr (Num 0.3125)
   \<and> type (generate_alert athlete_id inflammation_history genetic_dict) = ''inflammation''
   \<and> cause (generate_alert athlete_id inflammation_history genetic_dict) =
       ''HRV'' @ down_arrow @ ''(55) + RHR'' @ up_arrow @ ''(60) + Temp'' @ up_arrow
       @ ''(37.2) + SpO'' @ subscript_two @ down_arrow @ ''(93.0)''"
proof -
  have len: "length (rows inflammation_history) \<noteq> 0"
    by (simp add: inflammation_history_def)
  have body: "generate_alert_body athlete_id inflammation_history genetic_dict =
      apply_rules (latest_metrics inflammation_history)
        \<lparr>hrv_drop = True, rhr_rise = True, temp_high = True, spo2_low = True,
          deep_low = False, rem_low = False, sleep_short = False, resp_high = False,
          sleep_late = False\<rparr>"
    using len by (simp add: generate_alert_body_def inflammation_flags bind_def)
  have "py_div (Num (80 - 55)) (Num 80) = Inr (Num 0.3125)"
    by (simp add: py_div_def)
  moreover have "type (generate_alert athlete_id inflammation_history genetic_dict)
      = ''inflammation''"
    unfolding generate_alert_def body inflammation_metrics
    by (simp add: apply_rules_def bind_def fixed_def round_half_even_def str_nat.simps
        zero_pad_def)
  moreover have "cause (generate_alert athlete_id inflammation_history genetic_dict) =
       ''HRV'' @ down_arrow @ ''(55) + RHR'' @ up_arrow @ ''(60) + Temp'' @ up_arrow
       @ ''(37.2) + SpO'' @ subscript_two @ down_arrow @ ''(93.0)''"
    unfolding generate_alert_def body inflammation_metrics
    by (simp add: apply_rules_def bind_def fixed_def round_half_even_def str_nat.simps
        zero_pad_def)
  ultimately show ?thesis
    using inflammation_flags by blast
qed

subsection \<open>The zone of a REM sleep share of 28\<close>

lemma rem_row_eq:
  "rem_row = map_of (config_row ''rem_sleep_pct'' 20 25 16 19 0 15 ''%''
                 @ [(''yellow_low2'', Num 26), (''yellow_high2'', Num 30),
                    (''red_low2'', Num 31), (''red_high2'', Num 100)])"
  by (simp add: rem_row_def matching_rows_def metrics_config_def config_row_def cell_def)

lemma metrics_config_cols: "columns metrics_config = metrics_config_columns"
  by (simp add: metrics_config_def)

text \<open>
  Claim C8. In the threshold table of the template generator the REM sleep row has the
  critical ranges [0, 15] and [31, 100], the caution ranges [16, 19] and [26, 30] and the
  optimal range [20, 25]. The value 28 is outside the first caution range and inside the
  second, and the zone classifier returns the caution label (yellow) for it.
\<close>

theorem rem_zone_example:
  "band_ranges metrics_config rem_row ''red_low'' ''red_high'' ''red_low2'' ''red_high2''
     = Inr [(Num 0, Num 15), (Num 31, Num 100)]
   \<and> band_ranges metrics_config rem_row
        ''yellow_low'' ''yellow_high'' ''yellow_low2'' ''yellow_high2''
     = Inr [(Num 16, Num 19), (Num 26, Num 30)]
   \<and> series_get metrics_config rem_row ''green_low'' PosInf = Num 20
   \<and> series_get metrics_config rem_row ''green_high'' NegInf = Num 25
   \<and> in_range (Num 16, Num 19) (Num 28) = Inr False
   \<and> in_range (Num 26, Num 30) (Num 28) = Inr True
   \<and> get_zone_status (Num 28) ''rem_sleep_pct'' metrics_config = Yellow"
proof -
  note cols = metrics_config_cols
  have red: "band_ranges metrics_config rem_row ''red_low'' ''red_high'' ''red_low2'' ''red_high2''
     = Inr [(Num 0, Num 15), (Num 31, Num 100)]"
    unfolding rem_row_eq
    by (simp add: band_ranges_def series_get_def series_item_def cols metrics_config_columns_def
        config_row_def cell_def bind_def)
  have yellow: "band_ranges metrics_config rem_row
        ''yellow_low'' ''yellow_high'' ''yellow_low2'' ''yellow_high2''
     = Inr [(Num 16, Num 19), (Num 26, Num 30)]"
    unfolding rem_row_eq
    by (simp add: band_ranges_def series_get_def series_item_def cols metrics_config_columns_def
        config_row_def cell_def bind_def)
  have gl: "series_get metrics_config rem_row ''green_low'' PosInf = Num 20"
    unfolding rem_row_eq
    by (simp add: series_get_def cols metrics_config_columns_def config_row_def cell_def)
  have gh: "series_get metrics_config rem_row ''green_high'' NegInf = Num 25"
    unfolding rem_row_eq
    by (simp add: series_get_def cols metrics_config_columns_def config_row_def cell_def)
  have r1: "in_range (Num 16, Num 19) (Num 28) = Inr False"
    by (simp add: cmp_defs)
  have r2: "in_range (Num 26, Num 30) (Num 28) = Inr True"
    by (simp add: cmp_defs)
  have m: "matching_rows metrics_config ''rem_sleep_pct'' \<noteq> []"
    by (simp add: matching_rows_def metrics_config_def config_row_def cell_def)
  have "get_zone_status_body (Num 28) ''rem_sleep_pct'' metrics_config = Inr Yellow"
    using m
    by (simp add: get_zone_status_body_def Let_def rem_row_def [symmetric] red yellow cols
        metrics_config_columns_def bind_def py_compare_def)
  then have "get_zone_status (Num 28) ''rem_sleep_pct'' metrics_config = Yellow"
    by (simp add: get_zone_status_def)
  with red yellow gl gh r1 r2 show ?thesis by blast
qed

subsection \<open>One observation: absolute thresholds\<close>

text \<open>
  Claim C5. For a history of exactly one observation the HRV-drop flag is true exactly when
  the latest HRV (after the default is filled in) is below 40, and the RHR-rise flag is
  true exactly when the latest resting heart rate is above 70; the previous observation and
  the relative comparison play no part. The same holds for the two fields of the flag
  record the classifier computes.
\<close>

theorem single_observation_flags:
  assumes "length (rows df) = 1"
    and "hrv_night (latest_metrics df) = Num h"
    and "resting_hr (latest_metrics df) = Num r"
  shows "hrv_drop_of df (latest_metrics df) = Inr (h < 40)
       \<and> rhr_rise_of df (latest_metrics df) = Inr (70 < r)
       \<and> (\<forall>f. alert_flags df (latest_metrics df) = Inr f
              \<longrightarrow> hrv_drop f = (h < 40) \<and> rhr_rise f = (70 < r))"
proof -
  have d: "hrv_drop_of df (latest_metrics df) = Inr (h < 40)"
    using assms by (simp add: hrv_drop_of_def py_compare_def)
  have r: "rhr_rise_of df (latest_metrics df) = Inr (70 < r)"
    using assms by (simp add: rhr_rise_of_def py_compare_def)
  have "hrv_drop f = (h < 40) \<and> rhr_rise f = (70 < r)"
    if "alert_flags df (latest_metrics df) = Inr f" for f
    using that unfolding alert_flags_def d r
    by (auto simp: bind_def split: sum.splits)
  with d r show ?thesis by blast
qed

lemma single_history_metrics:
  "hrv_night (latest_metrics single_history) = Num 35
   \<and> resting_hr (latest_metrics single_history) = Num 72"
  by (simp add: latest_metrics_def single_history_def frame_defs)

theorem single_observation_flags_witness:
  "length (rows single_history) = 1
   \<and> hrv_night (latest_metrics single_history) = Num 35
   \<and> resting_hr (latest_metrics single_history) = Num 72
   \<and> hrv_drop_of single_history (latest_metrics single_history) = Inr True
   \<and> rhr_rise_of single_history (latest_metrics single_history) = Inr True"
proof -
  have l: "length (rows single_history) = 1"
    by (simp add: single_history_def)
  have h: "hrv_night (latest_metrics single_history) = Num 35"
    and r: "resting_hr (latest_metrics single_history) = Num 72"
    using single_history_metrics by simp_all
  from single_observation_flags [OF l h r] l h r show ?thesis
    by simp
qed

subsection \<open>A previous value that is not positive\<close>







subsection \<open>Totality and rule order on well-formed histories\<close>


lemma num_compare [simp]:
  "py_compare Lt (Num a) (Num b) = Inr (a < b)"
  "py_compare Le (Num a) (Num b) = Inr (a \<le> b)"
  "py_compare Gt (Num a) (Num b) = Inr (b < a)"
  "py_compare Ge (Num a) (Num b) = Inr (b \<le> a)"
  by (simp_all add: py_compare_def)













end
